theory Spec2Isabelle
  imports Main "HOL-Library.Sublist" "HOL-Library.Word"
begin

unbundle bit_operations_syntax

section \<open>GLib string primitives used by the query\<close>

text \<open>
  A C string is modelled as a \<^typ>\<open>string\<close> (a list of bytes, without the terminating NUL);
  a possibly-NULL \<^verbatim>\<open>gchar *\<close> that is stored or only read is a \<^typ>\<open>string option\<close>, with
  \<^term>\<open>None\<close> for NULL (the argument of the two string setters is a pointer, see below).
  A \<^verbatim>\<open>gboolean\<close> is a \<^typ>\<open>bool\<close>: GLib's contract is that it only holds TRUE or FALSE.
  A \<^verbatim>\<open>GString\<close> buffer is the \<^typ>\<open>string\<close> it currently holds.

  \<^verbatim>\<open>g_string_append_uri_escaped\<close> is GLib code. The query always calls it with
  \<^verbatim>\<open>reserved_chars_allowed = NULL\<close> and \<^verbatim>\<open>allow_utf8 = TRUE\<close>, so the model fixes
  these two arguments: a byte from \<open>0x80\<close> up that starts a valid UTF-8 sequence is copied
  together with the rest of that sequence, an unreserved ASCII character is copied, and every
  other byte becomes \<open>%XX\<close> with upper-case hexadecimal digits.
\<close>

definition g_ascii_isalnum :: "char \<Rightarrow> bool" where
  "g_ascii_isalnum c =
     (let n = (of_char c :: nat)
      in (48 \<le> n \<and> n \<le> 57) \<or> (65 \<le> n \<and> n \<le> 90) \<or> (97 \<le> n \<and> n \<le> 122))"

definition is_valid :: "char \<Rightarrow> bool" where
  "is_valid c =
     (g_ascii_isalnum c \<or> c = CHR ''-'' \<or> c = CHR ''.'' \<or> c = CHR ''_'' \<or> c = CHR ''~'')"

definition hex :: string where
  "hex = ''0123456789ABCDEF''"

definition g_utf8_skip :: "char \<Rightarrow> nat" where
  "g_utf8_skip c =
     (let n = (of_char c :: 32 word)
      in if n < 0xC0 then 1 else if n < 0xE0 then 2 else if n < 0xF0 then 3
         else if n < 0xF8 then 4 else if n < 0xFC then 5 else if n < 0xFE then 6 else 1)"

definition UNICODE_VALID :: "32 word \<Rightarrow> bool" where
  "UNICODE_VALID ch = (ch < 0x110000 \<and> (ch AND 0xFFFFF800) \<noteq> 0xD800)"

text \<open>
  A \<^verbatim>\<open>gunichar\<close> is a 32-bit word. The continuation bytes of a multi-byte sequence:
  \<open>len - 1\<close> bytes of the form \<open>10xxxxxx\<close> must follow, the decoded value must not be
  an over-long encoding (\<open>min_code\<close>) and must be a Unicode scalar value. \<^term>\<open>None\<close>
  stands for both of GLib's error results (\<open>-1\<close> and \<open>-2\<close>), which the caller does not
  tell apart.
\<close>

definition utf8_continuation :: "nat \<Rightarrow> 32 word \<Rightarrow> 32 word \<Rightarrow> string \<Rightarrow> 32 word option" where
  "utf8_continuation len wc min_code cs =
     (if length cs < len - 1 then None
      else if \<not> list_all (\<lambda>ch. ((of_char ch :: 32 word) AND 0xC0) = 0x80) (take (len - 1) cs)
        then None
      else
        let wc' = foldl (\<lambda>w ch. push_bit 6 w OR ((of_char ch :: 32 word) AND 0x3F)) wc
                    (take (len - 1) cs)
        in if wc' < min_code then None
           else if \<not> UNICODE_VALID wc' then None
           else Some wc')"

definition g_utf8_get_char_validated :: "string \<Rightarrow> 32 word option" where
  "g_utf8_get_char_validated p =
     (case p of
        [] \<Rightarrow> None
      | c # cs \<Rightarrow>
          let wc = (of_char c :: 32 word)
          in if wc < 0x80 then Some wc
             else if wc < 0xC0 then None
             else if wc < 0xE0 then utf8_continuation 2 (wc AND 0x1F) (push_bit 7 1) cs
             else if wc < 0xF0 then utf8_continuation 3 (wc AND 0x0F) (push_bit 11 1) cs
             else if wc < 0xF8 then utf8_continuation 4 (wc AND 0x07) (push_bit 16 1) cs
             else if wc < 0xFC then utf8_continuation 5 (wc AND 0x03) (push_bit 21 1) cs
             else if wc < 0xFE then utf8_continuation 6 (wc AND 0x01) (push_bit 26 1) cs
             else None)"

definition gunichar_ok :: "32 word option \<Rightarrow> bool" where
  "gunichar_ok r = (r \<noteq> None)"

definition escape_byte :: "char \<Rightarrow> string" where
  "escape_byte c =
     [CHR ''%'', hex ! (drop_bit 4 (of_char c :: nat)), hex ! ((of_char c :: nat) AND 0xF)]"

text \<open>
  The loop of \<^verbatim>\<open>g_string_append_uri_escaped\<close>, returning what it appends. In the first
  branch GLib copies \<open>g_utf8_skip[c]\<close> bytes starting at \<open>c\<close> and moves on by as many:
  that is \<open>c\<close> and the next \<open>g_utf8_skip[c] - 1\<close> bytes.
\<close>

function uri_escaped :: "string \<Rightarrow> string" where
  "uri_escaped [] = []"
| "uri_escaped (c # cs) =
     (if (of_char c :: 32 word) \<ge> 0x80 \<and> gunichar_ok (g_utf8_get_char_validated (c # cs))
      then c # take (g_utf8_skip c - 1) cs @ uri_escaped (drop (g_utf8_skip c - 1) cs)
      else if is_valid c then c # uri_escaped cs
      else escape_byte c @ uri_escaped cs)"
  by pat_completeness auto
termination
  by (relation "measure length") auto

text \<open>The three append operations on a \<^verbatim>\<open>GString\<close>; the buffer is the first argument, as in C.\<close>

definition g_string_append :: "string \<Rightarrow> string \<Rightarrow> string" where
  "g_string_append buf val = buf @ val"

definition g_string_append_c :: "string \<Rightarrow> char \<Rightarrow> string" where
  "g_string_append_c buf c = buf @ [c]"

definition g_string_append_uri_escaped :: "string \<Rightarrow> string \<Rightarrow> string" where
  "g_string_append_uri_escaped buf unescaped = buf @ uri_escaped unescaped"

text \<open>
  The two string setters release the stored string with \<^verbatim>\<open>g_free\<close> and only then copy
  their argument with \<^verbatim>\<open>g_strdup\<close>, so it matters where the argument points. A
  \<^verbatim>\<open>const gchar *\<close> argument of a setter is NULL, or points to a string in memory other than
  the block the field holds (the caller's own buffer, a literal, the other field's string),
  or points to the very block the field holds: that is the pointer the field's accessor
  returns. The block behind the field's pointer is live or freed.

  \<^verbatim>\<open>g_free\<close> releases the block (and does nothing for NULL). \<^verbatim>\<open>g_strdup\<close> returns NULL for
  NULL and a copy of the string otherwise; it reads the string, so copying from a freed
  block is a read of freed memory, the fault \<open>UseAfterFree\<close>. Its first argument here is
  the state of the block behind the field's pointer at the time of the call.
\<close>

datatype gchar_ptr = Null | Own string | Stored

datatype heap_block = Live string | Freed

datatype fault = UseAfterFree

definition g_free :: "heap_block option \<Rightarrow> heap_block option" where
  "g_free mem = (case mem of None \<Rightarrow> None | Some _ \<Rightarrow> Some Freed)"

definition g_strdup :: "heap_block option \<Rightarrow> gchar_ptr \<Rightarrow> fault + string option" where
  "g_strdup block str =
     (case str of
        Null \<Rightarrow> Inr None
      | Own txt \<Rightarrow> Inr (Some txt)
      | Stored \<Rightarrow>
          (case block of
             None \<Rightarrow> Inr None
           | Some (Live txt) \<Rightarrow> Inr (Some txt)
           | Some Freed \<Rightarrow> Inl UseAfterFree))"

text \<open>
  The pointer an accessor returns for a field, seen as an argument to the setter of that same
  field: NULL for an unset field, the stored block otherwise.
\<close>

definition field_pointer :: "string option \<Rightarrow> gchar_ptr" where
  "field_pointer stored = (case stored of None \<Rightarrow> Null | Some _ \<Rightarrow> Stored)"


section \<open>The data model\<close>

text \<open>
  \<^verbatim>\<open>GDataGDEmailAddress\<close> is defined in \<^verbatim>\<open>gd/gdata-gd-email-address.c\<close>, which is not among
  the sources at hand; the query only constructs such values and reads their address.
\<close>

record gdata_gd_email_address =
  address :: string
  relation_type :: "string option"
  label :: "string option"
  is_primary :: bool

datatype error = InvalidArgument

text \<open>
  Modelled from the spec: \<^verbatim>\<open>gdata_gd_email_address_new\<close> (the EmailPrincipal factory,
  \<^verbatim>\<open>gd/gdata-gd-email-address.c\<close>) is missing from the sources. The spec: pure value
  construction from address, relation tag, display name and primary flag, which fails with
  \<open>InvalidArgument\<close> when the address is empty or absent.
\<close>

definition gdata_gd_email_address_new ::
  "string option \<Rightarrow> string option \<Rightarrow> string option \<Rightarrow> bool \<Rightarrow> error + gdata_gd_email_address" where
  "gdata_gd_email_address_new addr rel lbl prim =
     (case addr of
        None \<Rightarrow> Inl InvalidArgument
      | Some a \<Rightarrow>
          if a = [] then Inl InvalidArgument
          else Inr \<lparr>address = a, relation_type = rel, label = lbl, is_primary = prim\<rparr>)"

definition gdata_gd_email_address_get_address :: "gdata_gd_email_address \<Rightarrow> string" where
  "gdata_gd_email_address_get_address a = address a"

text \<open>
  The query object: the fields of \<^verbatim>\<open>struct _GDataDocumentsQueryPrivate\<close>, in their order,
  preceded by the one field of the parent \<^verbatim>\<open>GDataQuery\<close> that this file reads
  (through \<^verbatim>\<open>gdata_query_get_entry_id\<close>). A \<^verbatim>\<open>GList\<close> is a list; NULL is the empty list.
  A freshly created object is zero-filled.
\<close>

record gdata_documents_query =
  entry_id :: "string option"
  show_deleted :: bool
  show_folders :: bool
  exact_title :: bool
  folder_id :: "string option"
  title :: "string option"
  collaborator_addresses :: "gdata_gd_email_address list"
  reader_addresses :: "gdata_gd_email_address list"

definition gdata_documents_query_init :: gdata_documents_query where
  "gdata_documents_query_init =
     \<lparr>entry_id = None, show_deleted = False, show_folders = False, exact_title = False,
      folder_id = None, title = None, collaborator_addresses = [], reader_addresses = []\<rparr>"

definition gdata_query_get_entry_id :: "gdata_documents_query \<Rightarrow> string option" where
  "gdata_query_get_entry_id self = entry_id self"

section \<open>Accessors and setters\<close>

text \<open>
  Every public function starts with \<^verbatim>\<open>g_return_if_fail (GDATA_IS_DOCUMENTS_QUERY (self))\<close>;
  the record type makes that check true. \<^verbatim>\<open>g_object_notify\<close> only signals observers and
  writes no field, so it has no counterpart here.
\<close>

definition gdata_documents_query_show_deleted :: "gdata_documents_query \<Rightarrow> bool" where
  "gdata_documents_query_show_deleted self = show_deleted self"

definition gdata_documents_query_set_show_deleted ::
  "gdata_documents_query \<Rightarrow> bool \<Rightarrow> gdata_documents_query" where
  "gdata_documents_query_set_show_deleted self sd = self\<lparr>show_deleted := sd\<rparr>"

definition gdata_documents_query_show_folders :: "gdata_documents_query \<Rightarrow> bool" where
  "gdata_documents_query_show_folders self = show_folders self"

definition gdata_documents_query_set_show_folders ::
  "gdata_documents_query \<Rightarrow> bool \<Rightarrow> gdata_documents_query" where
  "gdata_documents_query_set_show_folders self sf = self\<lparr>show_folders := sf\<rparr>"

definition gdata_documents_query_get_folder_id :: "gdata_documents_query \<Rightarrow> string option" where
  "gdata_documents_query_get_folder_id self = folder_id self"

text \<open>
  \<^verbatim>\<open>g_free (self->priv->folder_id); self->priv->folder_id = g_strdup (folder_id);\<close>
  Between the two statements the field holds a pointer to the freed block. A fault ends the
  call without a result.
\<close>

definition gdata_documents_query_set_folder_id ::
  "gdata_documents_query \<Rightarrow> gchar_ptr \<Rightarrow> fault + gdata_documents_query" where
  "gdata_documents_query_set_folder_id self fid =
     (let block = g_free (map_option Live (folder_id self))
      in case g_strdup block fid of
           Inl f \<Rightarrow> Inl f
         | Inr copy \<Rightarrow> Inr (self\<lparr>folder_id := copy\<rparr>))"

definition gdata_documents_query_get_title :: "gdata_documents_query \<Rightarrow> string option" where
  "gdata_documents_query_get_title self = title self"

definition gdata_documents_query_get_exact_title :: "gdata_documents_query \<Rightarrow> bool" where
  "gdata_documents_query_get_exact_title self = exact_title self"

definition gdata_documents_query_set_title ::
  "gdata_documents_query \<Rightarrow> gchar_ptr \<Rightarrow> bool \<Rightarrow> fault + gdata_documents_query" where
  "gdata_documents_query_set_title self t exact =
     (let block = g_free (map_option Live (title self))
      in case g_strdup block t of
           Inl f \<Rightarrow> Inl f
         | Inr copy \<Rightarrow>
             (let self = self\<lparr>title := copy\<rparr>;
                  self = self\<lparr>exact_title := exact\<rparr>
              in Inr self))"

definition gdata_documents_query_get_collaborator_addresses ::
  "gdata_documents_query \<Rightarrow> gdata_gd_email_address list" where
  "gdata_documents_query_get_collaborator_addresses self = collaborator_addresses self"

definition gdata_documents_query_get_reader_addresses ::
  "gdata_documents_query \<Rightarrow> gdata_gd_email_address list" where
  "gdata_documents_query_get_reader_addresses self = reader_addresses self"

text \<open>
  The two \<open>add\<close> functions return nothing and change the object in place, so the model
  returns the object together with the outcome. The early return of
  \<^verbatim>\<open>g_return_if_fail (email_address != NULL && *email_address != '\0')\<close> is the outcome
  \<^term>\<open>Some InvalidArgument\<close>. Past that guard the constructor's own precondition holds;
  its error branch is kept as a branch. \<^verbatim>\<open>g_list_append\<close> adds at the end of the list.
\<close>

definition g_list_append :: "'a list \<Rightarrow> 'a \<Rightarrow> 'a list" where
  "g_list_append xs x = xs @ [x]"

definition gdata_documents_query_add_reader ::
  "gdata_documents_query \<Rightarrow> string option \<Rightarrow> error option \<times> gdata_documents_query" where
  "gdata_documents_query_add_reader self email_address =
     (if \<not> (email_address \<noteq> None \<and> email_address \<noteq> Some []) then (Some InvalidArgument, self)
      else
        case gdata_gd_email_address_new email_address (Some ''reader'') None False of
          Inl e \<Rightarrow> (Some e, self)
        | Inr a \<Rightarrow>
            (None, self\<lparr>reader_addresses := g_list_append (reader_addresses self) a\<rparr>))"

definition gdata_documents_query_add_collaborator ::
  "gdata_documents_query \<Rightarrow> string option \<Rightarrow> error option \<times> gdata_documents_query" where
  "gdata_documents_query_add_collaborator self email_address =
     (if \<not> (email_address \<noteq> None \<and> email_address \<noteq> Some []) then (Some InvalidArgument, self)
      else
        case gdata_gd_email_address_new email_address (Some ''collaborator'') None False of
          Inl e \<Rightarrow> (Some e, self)
        | Inr a \<Rightarrow>
            (None,
             self\<lparr>collaborator_addresses := g_list_append (collaborator_addresses self) a\<rparr>))"

subsection \<open>The GObject property interface\<close>

text \<open>
  A \<^verbatim>\<open>GValue\<close> holds a boolean or a possibly-NULL string of its own (setting a string
  value copies it). Reading it at the other type gives GLib's fallback (\<open>FALSE\<close>,
  \<open>NULL\<close>). \<^verbatim>\<open>g_value_get_string\<close> returns a pointer to the value's own string, whose
  content is \<open>g_value_string\<close>. Property identifiers are the values of the anonymous
  \<^verbatim>\<open>enum\<close>, which starts at 1.
\<close>

datatype gvalue = GBoolean bool | GString "string option"

definition g_value_get_boolean :: "gvalue \<Rightarrow> bool" where
  "g_value_get_boolean v = (case v of GBoolean b \<Rightarrow> b | GString _ \<Rightarrow> False)"

definition g_value_string :: "gvalue \<Rightarrow> string option" where
  "g_value_string v = (case v of GString str \<Rightarrow> str | GBoolean _ \<Rightarrow> None)"

definition g_value_get_string :: "gvalue \<Rightarrow> gchar_ptr" where
  "g_value_get_string v = (case g_value_string v of None \<Rightarrow> Null | Some str \<Rightarrow> Own str)"

definition PROP_SHOW_DELETED :: nat where "PROP_SHOW_DELETED = 1"
definition PROP_SHOW_FOLDERS :: nat where "PROP_SHOW_FOLDERS = 2"
definition PROP_EXACT_TITLE :: nat where "PROP_EXACT_TITLE = 3"
definition PROP_FOLDER_ID :: nat where "PROP_FOLDER_ID = 4"
definition PROP_TITLE :: nat where "PROP_TITLE = 5"

text \<open>The result is the value written to \<^verbatim>\<open>value\<close>; \<^term>\<open>None\<close> is the warning of the default case.\<close>

definition gdata_documents_query_get_property ::
  "gdata_documents_query \<Rightarrow> nat \<Rightarrow> gvalue option" where
  "gdata_documents_query_get_property priv property_id =
     (if property_id = PROP_SHOW_DELETED then Some (GBoolean (show_deleted priv))
      else if property_id = PROP_SHOW_FOLDERS then Some (GBoolean (show_folders priv))
      else if property_id = PROP_FOLDER_ID then Some (GString (folder_id priv))
      else if property_id = PROP_EXACT_TITLE then Some (GBoolean (exact_title priv))
      else if property_id = PROP_TITLE then Some (GString (title priv))
      else None)"

definition gdata_documents_query_set_property ::
  "gdata_documents_query \<Rightarrow> nat \<Rightarrow> gvalue \<Rightarrow> fault + gdata_documents_query" where
  "gdata_documents_query_set_property self property_id v =
     (if property_id = PROP_SHOW_DELETED
        then Inr (gdata_documents_query_set_show_deleted self (g_value_get_boolean v))
      else if property_id = PROP_SHOW_FOLDERS
        then Inr (gdata_documents_query_set_show_folders self (g_value_get_boolean v))
      else if property_id = PROP_FOLDER_ID
        then gdata_documents_query_set_folder_id self (g_value_get_string v)
      else if property_id = PROP_EXACT_TITLE
        then Inr (self\<lparr>exact_title := g_value_get_boolean v\<rparr>)
      else if property_id = PROP_TITLE
        then gdata_documents_query_set_title self (g_value_get_string v) True
      else Inr self)"

section \<open>The URI-composition step\<close>

text \<open>
  \<^verbatim>\<open>get_query_uri\<close> works on three pieces of state: the query object, the \<^verbatim>\<open>GString\<close>
  \<^verbatim>\<open>query_uri\<close> and the flag behind \<^verbatim>\<open>params_started\<close>. The parent class's
  \<^verbatim>\<open>get_query_uri\<close> (in \<^verbatim>\<open>gdata-query.c\<close>) is not among the sources, so the step is a
  parameter: any function that reads the query and the feed URI and returns the new
  buffer and flag. The three \<open>query_uri_append\<close> functions are the \<^verbatim>\<open>GString\<close> calls
  applied to the buffer held in the state, and \<^verbatim>\<open>APPEND_SEP\<close> is the macro of that name.
  The local \<^verbatim>\<open>entry_id\<close> is read once, before the base step, as in the source.
\<close>

record uri_state =
  self :: gdata_documents_query
  query_uri :: string
  params_started :: bool

type_synonym parent_get_query_uri =
  "gdata_documents_query \<Rightarrow> string \<Rightarrow> string \<times> bool \<Rightarrow> string \<times> bool"

definition chain_up :: "parent_get_query_uri \<Rightarrow> string \<Rightarrow> uri_state \<Rightarrow> uri_state" where
  "chain_up parent feed_uri s =
     (case parent (self s) feed_uri (query_uri s, params_started s) of
        (buf, started) \<Rightarrow> s\<lparr>query_uri := buf, params_started := started\<rparr>)"

definition APPEND_SEP :: "uri_state \<Rightarrow> uri_state" where
  "APPEND_SEP s =
     (let s = s\<lparr>query_uri :=
                  g_string_append_c (query_uri s) (if params_started s = False then CHR ''?'' else CHR ''&'')\<rparr>;
          s = s\<lparr>params_started := True\<rparr>
      in s)"

definition query_uri_append :: "string \<Rightarrow> uri_state \<Rightarrow> uri_state" where
  "query_uri_append val s = s\<lparr>query_uri := g_string_append (query_uri s) val\<rparr>"

definition query_uri_append_c :: "char \<Rightarrow> uri_state \<Rightarrow> uri_state" where
  "query_uri_append_c c s = s\<lparr>query_uri := g_string_append_c (query_uri s) c\<rparr>"

definition query_uri_append_uri_escaped :: "string \<Rightarrow> uri_state \<Rightarrow> uri_state" where
  "query_uri_append_uri_escaped unescaped s =
     s\<lparr>query_uri := g_string_append_uri_escaped (query_uri s) unescaped\<rparr>"

definition get_query_uri :: "parent_get_query_uri \<Rightarrow> string \<Rightarrow> uri_state \<Rightarrow> uri_state" where
  "get_query_uri parent feed_uri s =
     (let priv = self s;
          entry_id = gdata_query_get_entry_id (self s);
          s = (case (entry_id, folder_id priv) of
                 (None, Some fid) \<Rightarrow>
                   (let s = query_uri_append ''/folder%3A'' s;
                        s = query_uri_append_uri_escaped fid s
                    in s)
               | _ \<Rightarrow> s);
          s = chain_up parent feed_uri s
      in if entry_id \<noteq> None then s
         else
           let s = (case collaborator_addresses priv of
                      [] \<Rightarrow> s
                    | collaborator_address # next \<Rightarrow>
                        (let s = APPEND_SEP s;
                             s = query_uri_append ''writer='' s;
                             s = query_uri_append_uri_escaped
                                   (gdata_gd_email_address_get_address collaborator_address) s
                         in fold (\<lambda>collaborator_address s.
                                    query_uri_append_uri_escaped
                                      (gdata_gd_email_address_get_address collaborator_address)
                                      (query_uri_append_c CHR '';'' s))
                                 next s));
               s = (case reader_addresses priv of
                      [] \<Rightarrow> s
                    | reader_address # next \<Rightarrow>
                        (let s = APPEND_SEP s;
                             s = query_uri_append ''reader='' s;
                             s = query_uri_append_uri_escaped
                                   (gdata_gd_email_address_get_address reader_address) s
                         in fold (\<lambda>reader_address s.
                                    query_uri_append_uri_escaped
                                      (gdata_gd_email_address_get_address reader_address)
                                      (query_uri_append_c CHR '';'' s))
                                 next s));
               s = (case title priv of
                      None \<Rightarrow> s
                    | Some t \<Rightarrow>
                        (let s = APPEND_SEP s;
                             s = query_uri_append ''title='' s;
                             s = query_uri_append_uri_escaped t s
                         in if exact_title priv = True then query_uri_append ''&title-exact=true'' s
                            else s));
               s = APPEND_SEP s;
               s = (if show_deleted priv = True then query_uri_append ''showdeleted=true'' s
                    else query_uri_append ''showdeleted=false'' s);
               s = (if show_folders priv = True then query_uri_append ''&showfolders=true'' s
                    else query_uri_append ''&showfolders=false'' s)
           in s)"


section \<open>The wire format as the specification words it\<close>

text \<open>
  These definitions follow the specification's description of the composition steps, not
  the code: the separator chosen by the params-started flag, a semicolon-joined list
  parameter, the title parameter with its optional literal suffix, the two visibility
  flags, and the path segment. The theorems below compare \<^const>\<open>get_query_uri\<close> with them.
\<close>

definition spec_sep :: "bool \<Rightarrow> string" where
  "spec_sep started = (if started then ''&'' else ''?'')"

fun spec_join :: "string list \<Rightarrow> string" where
  "spec_join [] = []"
| "spec_join [v] = v"
| "spec_join (v # w # ws) = v @ '';'' @ spec_join (w # ws)"

definition spec_list_param :: "string \<Rightarrow> bool \<Rightarrow> gdata_gd_email_address list \<Rightarrow> string" where
  "spec_list_param name started xs =
     (if xs = [] then []
      else spec_sep started @ name @ ''='' @ spec_join (map (\<lambda>x. uri_escaped (address x)) xs))"

definition spec_bool :: "bool \<Rightarrow> string" where
  "spec_bool b = (if b then ''true'' else ''false'')"

definition spec_title_param :: "bool \<Rightarrow> string option \<Rightarrow> bool \<Rightarrow> string" where
  "spec_title_param started t exact =
     (case t of
        None \<Rightarrow> []
      | Some txt \<Rightarrow>
          spec_sep started @ ''title='' @ uri_escaped txt
            @ (if exact then ''&title-exact=true'' else []))"

definition spec_visibility_params :: "bool \<Rightarrow> bool \<Rightarrow> bool \<Rightarrow> string" where
  "spec_visibility_params started sd sf =
     spec_sep started @ ''showdeleted='' @ spec_bool sd @ ''&showfolders='' @ spec_bool sf"

definition spec_path_extension :: "string option \<Rightarrow> string" where
  "spec_path_extension fid =
     (case fid of None \<Rightarrow> [] | Some f \<Rightarrow> ''/folder%3A'' @ uri_escaped f)"

text \<open>
  Everything the specification's steps 4 to 7 add behind the base step's output, given
  the flag the base step left.
\<close>

definition spec_document_params :: "bool \<Rightarrow> gdata_documents_query \<Rightarrow> string" where
  "spec_document_params started q =
     (let st1 = (started \<or> collaborator_addresses q \<noteq> []);
          st2 = (st1 \<or> reader_addresses q \<noteq> []);
          st3 = (st2 \<or> title q \<noteq> None)
      in spec_list_param ''writer'' started (collaborator_addresses q)
           @ spec_list_param ''reader'' st1 (reader_addresses q)
           @ spec_title_param st2 (title q) (exact_title q)
           @ spec_visibility_params st3 (show_deleted q) (show_folders q))"

text \<open>
  The number of places at which the text \<open>pat\<close> occurs in \<open>txt\<close>. A parameter
  \<open>name=\<close> is counted as an occurrence of the name with its equals sign.
\<close>

fun occurrences :: "string \<Rightarrow> string \<Rightarrow> nat" where
  "occurrences pat [] = 0"
| "occurrences pat (c # cs) = (if prefix pat (c # cs) then 1 else 0) + occurrences pat cs"

text \<open>
  The characters that structure the query string. None of them survives escaping.
\<close>

definition delimiters :: "char set" where
  "delimiters = {CHR ''='', CHR ''?'', CHR ''&'', CHR '';''}"

text \<open>The part of a URI in front of its first question mark.\<close>

definition before_query :: "string \<Rightarrow> string" where
  "before_query uri = takeWhile (\<lambda>c. c \<noteq> CHR ''?'') uri"

section \<open>Example inputs\<close>

text \<open>
  Two instances of the base step for the examples: a base query with none of its own
  parameters set, which appends nothing, and one that has already written a search term.
\<close>

definition parent_no_params :: parent_get_query_uri where
  "parent_no_params q feed_uri st = st"

definition parent_search_term :: parent_get_query_uri where
  "parent_search_term q feed_uri st =
     (case st of
        (buf, started) \<Rightarrow> (buf @ (if started then ''&'' else ''?'') @ ''q=report'', True))"

definition example_feed_uri :: string where
  "example_feed_uri = ''https://docs.example.com/feeds/default/private/full''"

definition start_state :: "gdata_documents_query \<Rightarrow> string \<Rightarrow> uri_state" where
  "start_state q feed_uri = \<lparr>self = q, query_uri = feed_uri, params_started = False\<rparr>"

text \<open>
  Two queries for the examples: a collection query with every filter set, and the same
  query narrowed to a single entry.
\<close>

definition example_query :: gdata_documents_query where
  "example_query =
     \<lparr>entry_id = None, show_deleted = False, show_folders = True, exact_title = True,
      folder_id = Some ''abc'', title = Some ''Annual Report'',
      collaborator_addresses =
        [\<lparr>address = ''a@x.com'', relation_type = Some ''collaborator'', label = None,
          is_primary = False\<rparr>,
         \<lparr>address = ''b@y.com'', relation_type = Some ''collaborator'', label = None,
          is_primary = False\<rparr>],
      reader_addresses =
        [\<lparr>address = ''c@z.org'', relation_type = Some ''reader'', label = None,
          is_primary = False\<rparr>]\<rparr>"

definition example_entry_query :: gdata_documents_query where
  "example_entry_query = example_query\<lparr>entry_id := Some ''doc1''\<rparr>"

text \<open>
  Further queries for the examples: one with a folder ID only, one with a title and the
  exact-title flag only, one whose folder ID and title are both the empty string, and one
  with two readers added in turn. The second feed URI already carries a query string.
\<close>

definition example_folder_query :: gdata_documents_query where
  "example_folder_query = gdata_documents_query_init\<lparr>folder_id := Some ''abc''\<rparr>"

definition example_feed_uri_with_query :: string where
  "example_feed_uri_with_query = ''https://docs.example.com/feeds/default/private/full?alt=json''"

definition example_title_query :: gdata_documents_query where
  "example_title_query =
     gdata_documents_query_init\<lparr>title := Some ''Annual Report'', exact_title := True\<rparr>"

definition example_empty_strings_query :: gdata_documents_query where
  "example_empty_strings_query =
     gdata_documents_query_init\<lparr>folder_id := Some [], title := Some []\<rparr>"

definition example_readers_query :: gdata_documents_query where
  "example_readers_query =
     snd (gdata_documents_query_add_reader
            (snd (gdata_documents_query_add_reader gdata_documents_query_init (Some ''a@x.com'')))
            (Some ''b@y.com''))"

section \<open>Auxiliary facts\<close>

subsection \<open>Characters of an escaped value\<close>

lemma hex_index_high: "drop_bit 4 (of_char c :: nat) < 16"
proof -
  have "(of_char c :: nat) < 256" by (rule nat_of_char_less_256)
  then have "(of_char c :: nat) div 16 < 16" by arith
  then show ?thesis by (simp add: drop_bit_eq_div)
qed

lemma and_15_mod: "((n :: nat) AND 0xF) = n mod 16"
proof -
  have "n AND mask 4 = take_bit 4 n" by (simp add: take_bit_eq_mask)
  then show ?thesis by (simp add: take_bit_eq_mod mask_eq_exp_minus_1)
qed

lemma hex_index_low: "((of_char c :: nat) AND 0xF) < 16"
  by (simp add: and_15_mod)

lemma hex_nth_mem: "i < 16 \<Longrightarrow> hex ! i \<in> set hex"
proof -
  assume "i < 16"
  moreover have "length hex = 16" by (simp add: hex_def)
  ultimately show ?thesis by (simp only: nth_mem)
qed

lemma hex_no_delimiter: "c \<in> set hex \<Longrightarrow> c \<notin> delimiters"
  by (auto simp: hex_def delimiters_def)

lemma escape_byte_no_delimiter: "d \<in> set (escape_byte c) \<Longrightarrow> d \<notin> delimiters"
proof -
  assume "d \<in> set (escape_byte c)"
  then consider "d = CHR ''%''" | "d = hex ! (drop_bit 4 (of_char c :: nat))"
    | "d = hex ! ((of_char c :: nat) AND 0xF)"
    by (auto simp: escape_byte_def)
  then show ?thesis
  proof cases
    case 1
    then show ?thesis by (simp add: delimiters_def)
  next
    case 2
    then show ?thesis using hex_nth_mem [OF hex_index_high] hex_no_delimiter by simp
  next
    case 3
    then show ?thesis using hex_nth_mem [OF hex_index_low] hex_no_delimiter by simp
  qed
qed

lemma high_byte_no_delimiter: "(of_char c :: 32 word) \<ge> 0x80 \<Longrightarrow> c \<notin> delimiters"
  by (auto simp: delimiters_def)

lemma continuation_byte_no_delimiter:
  "((of_char c :: 32 word) AND 0xC0) = 0x80 \<Longrightarrow> c \<notin> delimiters"
  by (auto simp: delimiters_def)

lemma is_valid_no_delimiter: "is_valid c \<Longrightarrow> c \<notin> delimiters"
  by (auto simp: is_valid_def g_ascii_isalnum_def delimiters_def)

lemma validated_continuation:
  "(of_char c :: 32 word) \<ge> 0x80 \<Longrightarrow> gunichar_ok (g_utf8_get_char_validated (c # cs)) \<Longrightarrow>
   list_all (\<lambda>ch. ((of_char ch :: 32 word) AND 0xC0) = 0x80) (take (g_utf8_skip c - 1) cs)"
  by (auto simp: gunichar_ok_def g_utf8_get_char_validated_def g_utf8_skip_def
        utf8_continuation_def Let_def split: if_splits)

lemma uri_escaped_no_delimiter: "d \<in> set (uri_escaped v) \<Longrightarrow> d \<notin> delimiters"
proof (induction v arbitrary: d rule: uri_escaped.induct)
  case 1
  then show ?case by simp
next
  case (2 c cs)
  show ?case
  proof (cases "(of_char c :: 32 word) \<ge> 0x80 \<and> gunichar_ok (g_utf8_get_char_validated (c # cs))")
    case True
    then have cont: "list_all (\<lambda>ch. ((of_char ch :: 32 word) AND 0xC0) = 0x80)
                       (take (g_utf8_skip c - 1) cs)"
      using validated_continuation by blast
    from True "2.prems" consider "d = c" | "d \<in> set (take (g_utf8_skip c - 1) cs)"
      | "d \<in> set (uri_escaped (drop (g_utf8_skip c - 1) cs))"
      by auto
    then show ?thesis
    proof cases
      case 1
      then show ?thesis using True high_byte_no_delimiter by blast
    next
      case 2
      then show ?thesis using cont continuation_byte_no_delimiter
        by (auto simp: list_all_iff)
    next
      case 3
      then show ?thesis using "2.IH"(1) True by blast
    qed
  next
    case False
    show ?thesis
    proof (cases "is_valid c")
      case True
      with False "2.prems" have "d = c \<or> d \<in> set (uri_escaped cs)" by auto
      then show ?thesis using True is_valid_no_delimiter "2.IH"(2) False by blast
    next
      case nv: False
      with False "2.prems" have "d \<in> set (escape_byte c) \<or> d \<in> set (uri_escaped cs)" by auto
      then show ?thesis using escape_byte_no_delimiter "2.IH"(3) False nv by blast
    qed
  qed
qed

subsection \<open>Counting occurrences\<close>

text \<open>
  An occurrence of a pattern cannot run across a character that the pattern does not
  contain, and cannot end inside a text that lacks the pattern's last character.
\<close>

lemma prefix_append_char:
  assumes "c \<notin> set pat"
  shows "prefix pat (xs @ c # ys) \<longleftrightarrow> prefix pat xs"
proof
  assume "prefix pat (xs @ c # ys)"
  then have "prefix pat xs \<or> (\<exists>zs. pat = xs @ zs \<and> prefix zs (c # ys))"
    by (auto simp: prefix_append)
  then show "prefix pat xs"
  proof
    assume "prefix pat xs" then show ?thesis .
  next
    assume "\<exists>zs. pat = xs @ zs \<and> prefix zs (c # ys)"
    then obtain zs where z: "pat = xs @ zs" "prefix zs (c # ys)" by blast
    from z(1) assms have "c \<notin> set zs" by simp
    with z(2) have "zs = []" by (cases zs) auto
    with z(1) show ?thesis by simp
  qed
next
  assume "prefix pat xs" then show "prefix pat (xs @ c # ys)" by (simp add: prefix_prefix)
qed

lemma occurrences_split:
  assumes "c \<notin> set pat" "pat \<noteq> []"
  shows "occurrences pat (xs @ c # ys) = occurrences pat xs + occurrences pat ys"
proof (induction xs)
  case Nil
  from assms have "\<not> prefix pat (c # ys)" by (cases pat) auto
  then show ?case by simp
next
  case (Cons x xs)
  have "prefix pat ((x # xs) @ c # ys) \<longleftrightarrow> prefix pat (x # xs)"
    using assms(1) by (rule prefix_append_char)
  with Cons show ?case by simp
qed

lemma occurrences_absent:
  assumes "c \<in> set pat" "c \<notin> set xs"
  shows "occurrences pat xs = 0"
  using assms(2)
proof (induction xs)
  case Nil
  then show ?case by simp
next
  case (Cons x xs)
  have "\<not> prefix pat (x # xs)"
  proof
    assume "prefix pat (x # xs)"
    then have "set pat \<subseteq> set (x # xs)" by (rule set_mono_prefix)
    with assms(1) Cons.prems show False by blast
  qed
  with Cons show ?case by simp
qed

lemma occurrences_tail:
  assumes "pat \<noteq> []" "last pat \<notin> set ys"
  shows "occurrences pat (xs @ ys) = occurrences pat xs"
proof (induction xs)
  case Nil
  from assms have "last pat \<in> set pat" by simp
  then show ?case using assms(2) by (simp add: occurrences_absent)
next
  case (Cons x xs)
  have "prefix pat ((x # xs) @ ys) \<longleftrightarrow> prefix pat (x # xs)"
  proof
    assume "prefix pat ((x # xs) @ ys)"
    then have "prefix pat (x # xs) \<or> (\<exists>zs. pat = (x # xs) @ zs \<and> prefix zs ys)"
      by (simp only: prefix_append)
    then show "prefix pat (x # xs)"
    proof
      assume "prefix pat (x # xs)" then show ?thesis .
    next
      assume "\<exists>zs. pat = (x # xs) @ zs \<and> prefix zs ys"
      then obtain zs where z: "pat = (x # xs) @ zs" "prefix zs ys" by blast
      show ?thesis
      proof (cases "zs = []")
        case True
        with z(1) show ?thesis by simp
      next
        case False
        with z(1) have "last pat = last zs" by simp
        moreover from False have "last zs \<in> set zs" by simp
        moreover from z(2) have "set zs \<subseteq> set ys" by (rule set_mono_prefix)
        ultimately show ?thesis using assms(2) by auto
      qed
    qed
  next
    assume "prefix pat (x # xs)" then show "prefix pat ((x # xs) @ ys)"
      by (rule prefix_prefix)
  qed
  with Cons show ?case by simp
qed

subsection \<open>The blocks of the composition step\<close>

text \<open>
  The loop over the rest of an address list writes a semicolon and the escaped address for
  each element; together with the first address that is the semicolon-joined list.
\<close>

lemma fold_addresses:
  "fold (\<lambda>x s. query_uri_append_uri_escaped (gdata_gd_email_address_get_address x)
                  (query_uri_append_c CHR '';'' s)) xs s
     = s\<lparr>query_uri := query_uri s @ concat (map (\<lambda>x. CHR '';'' # uri_escaped (address x)) xs)\<rparr>"
proof (induction xs arbitrary: s)
  case Nil
  then show ?case by simp
next
  case (Cons x xs)
  then show ?case
    by (simp add: query_uri_append_uri_escaped_def query_uri_append_c_def
          g_string_append_uri_escaped_def g_string_append_c_def
          gdata_gd_email_address_get_address_def)
qed

lemma spec_join_Cons: "spec_join (v # map g xs) = v @ concat (map (\<lambda>x. CHR '';'' # g x) xs)"
  by (induction xs arbitrary: v) simp_all

lemma self_chain_up: "self (chain_up parent feed_uri s) = self s"
  by (simp add: chain_up_def split: prod.split)

text \<open>
  Each block of \<^const>\<open>get_query_uri\<close>, with its local bindings expanded, against the
  specification's wording of the same step.
\<close>

lemma list_block:
  "(case xs of
      [] \<Rightarrow> s
    | a # rest \<Rightarrow>
        fold (\<lambda>x s. query_uri_append_uri_escaped (gdata_gd_email_address_get_address x)
                       (query_uri_append_c CHR '';'' s)) rest
          (query_uri_append_uri_escaped (gdata_gd_email_address_get_address a)
             (query_uri_append lit (APPEND_SEP s))))
   = s\<lparr>query_uri := query_uri s @
          (if xs = [] then []
           else spec_sep (params_started s) @ lit
                  @ spec_join (map (\<lambda>x. uri_escaped (address x)) xs)),
        params_started := (params_started s \<or> xs \<noteq> [])\<rparr>"
proof (cases xs)
  case Nil
  then show ?thesis by simp
next
  case (Cons a rest)
  have j: "spec_join (map (\<lambda>x. uri_escaped (address x)) (a # rest))
             = uri_escaped (address a)
                 @ concat (map (\<lambda>x. CHR '';'' # uri_escaped (address x)) rest)"
    using spec_join_Cons [of "uri_escaped (address a)" "\<lambda>x. uri_escaped (address x)" rest]
    by simp
  show ?thesis
    unfolding Cons j
    by (simp only: fold_addresses list.case)
       (simp add: APPEND_SEP_def Let_def query_uri_append_def query_uri_append_uri_escaped_def
          g_string_append_def g_string_append_c_def g_string_append_uri_escaped_def
          gdata_gd_email_address_get_address_def spec_sep_def)
qed

lemma title_block:
  "(case t of
      None \<Rightarrow> s
    | Some txt \<Rightarrow>
        if ex
        then query_uri_append ''&title-exact=true''
               (query_uri_append_uri_escaped txt (query_uri_append ''title='' (APPEND_SEP s)))
        else query_uri_append_uri_escaped txt (query_uri_append ''title='' (APPEND_SEP s)))
   = s\<lparr>query_uri := query_uri s @ spec_title_param (params_started s) t ex,
        params_started := (params_started s \<or> t \<noteq> None)\<rparr>"
  by (cases t)
     (simp_all add: Let_def APPEND_SEP_def query_uri_append_def query_uri_append_uri_escaped_def
        g_string_append_def g_string_append_c_def g_string_append_uri_escaped_def
        spec_title_param_def spec_sep_def)

lemma visibility_block:
  "(if sf
    then query_uri_append ''&showfolders=true''
           (if sd then query_uri_append ''showdeleted=true'' (APPEND_SEP s)
            else query_uri_append ''showdeleted=false'' (APPEND_SEP s))
    else query_uri_append ''&showfolders=false''
           (if sd then query_uri_append ''showdeleted=true'' (APPEND_SEP s)
            else query_uri_append ''showdeleted=false'' (APPEND_SEP s)))
   = s\<lparr>query_uri := query_uri s @ spec_visibility_params (params_started s) sd sf,
        params_started := True\<rparr>"
  by (simp add: Let_def APPEND_SEP_def query_uri_append_def g_string_append_def
        g_string_append_c_def spec_visibility_params_def spec_sep_def spec_bool_def)

lemma path_block:
  "(case fid of
      None \<Rightarrow> s
    | Some f \<Rightarrow> query_uri_append_uri_escaped f (query_uri_append ''/folder%3A'' s))
   = s\<lparr>query_uri := query_uri s @ spec_path_extension fid\<rparr>"
  by (cases fid)
     (simp_all add: query_uri_append_def query_uri_append_uri_escaped_def g_string_append_def
        g_string_append_uri_escaped_def spec_path_extension_def)

lemma get_query_uri_entry:
  assumes "entry_id (self s) = Some e"
  shows "get_query_uri parent feed_uri s = chain_up parent feed_uri s"
  using assms by (simp add: get_query_uri_def gdata_query_get_entry_id_def Let_def)

lemma get_query_uri_collection:
  assumes "entry_id (self s) = None"
    and "s2 = chain_up parent feed_uri
                (s\<lparr>query_uri := query_uri s @ spec_path_extension (folder_id (self s))\<rparr>)"
  shows "get_query_uri parent feed_uri s
           = s2\<lparr>query_uri := query_uri s2 @ spec_document_params (params_started s2) (self s),
                params_started := True\<rparr>"
proof -
  have "get_query_uri parent feed_uri s
          = (let s3 = s2\<lparr>query_uri := query_uri s2 @
                         (if collaborator_addresses (self s) = [] then []
                          else spec_sep (params_started s2) @ ''writer=''
                                 @ spec_join (map (\<lambda>x. uri_escaped (address x))
                                                (collaborator_addresses (self s)))),
                       params_started := (params_started s2 \<or> collaborator_addresses (self s) \<noteq> [])\<rparr>;
                 s4 = s3\<lparr>query_uri := query_uri s3 @
                         (if reader_addresses (self s) = [] then []
                          else spec_sep (params_started s3) @ ''reader=''
                                 @ spec_join (map (\<lambda>x. uri_escaped (address x))
                                                (reader_addresses (self s)))),
                       params_started := (params_started s3 \<or> reader_addresses (self s) \<noteq> [])\<rparr>;
                 s5 = s4\<lparr>query_uri := query_uri s4 @
                           spec_title_param (params_started s4) (title (self s)) (exact_title (self s)),
                         params_started := (params_started s4 \<or> title (self s) \<noteq> None)\<rparr>
             in s5\<lparr>query_uri := query_uri s5 @
                      spec_visibility_params (params_started s5) (show_deleted (self s))
                        (show_folders (self s)),
                    params_started := True\<rparr>)"
    unfolding assms(2)
    by (simp only: get_query_uri_def Let_def gdata_query_get_entry_id_def assms(1)
          simp_thms if_False prod.case option.case
          path_block list_block title_block visibility_block)
  also have "\<dots> = s2\<lparr>query_uri := query_uri s2 @ spec_document_params (params_started s2) (self s),
                      params_started := True\<rparr>"
    by (simp add: Let_def spec_document_params_def spec_list_param_def)
  finally show ?thesis .
qed

subsection \<open>Occurrences of a parameter name in the appended text\<close>

lemma occurrences_led:
  assumes "pat \<noteq> []" "c \<notin> set pat"
  shows "occurrences pat (c # ys) = occurrences pat ys"
  using occurrences_split [OF assms(2) assms(1), of "[]" ys] by simp

lemma occurrences_sep:
  assumes "pat \<noteq> []" "CHR ''?'' \<notin> set pat" "CHR ''&'' \<notin> set pat"
  shows "occurrences pat (xs @ spec_sep st @ ys) = occurrences pat xs + occurrences pat ys"
proof (cases st)
  case True
  then show ?thesis using occurrences_split [OF assms(3) assms(1), of xs ys]
    by (simp add: spec_sep_def)
next
  case False
  then show ?thesis using occurrences_split [OF assms(2) assms(1), of xs ys]
    by (simp add: spec_sep_def)
qed

lemma spec_join_no_equals: "CHR ''='' \<notin> set (spec_join (map (\<lambda>x. uri_escaped (address x)) xs))"
proof (induction xs rule: induct_list012)
  case 1
  then show ?case by simp
next
  case (2 x)
  then show ?case using uri_escaped_no_delimiter [of "CHR ''=''"] by (auto simp: delimiters_def)
next
  case (3 x y zs)
  then show ?case using uri_escaped_no_delimiter [of "CHR ''=''" "address x"]
    by (auto simp: delimiters_def)
qed

lemma uri_escaped_no_equals: "CHR ''='' \<notin> set (uri_escaped v)"
  using uri_escaped_no_delimiter [of "CHR ''=''" v] by (auto simp: delimiters_def)

lemma occurrences_list_param:
  assumes "pat \<noteq> []" "last pat = CHR ''=''" "CHR ''?'' \<notin> set pat" "CHR ''&'' \<notin> set pat"
  shows "occurrences pat (xs @ spec_list_param name st addrs)
           = occurrences pat xs + (if addrs = [] then 0 else occurrences pat (name @ ''=''))"
proof (cases "addrs = []")
  case True
  then show ?thesis by (simp add: spec_list_param_def)
next
  case False
  have "occurrences pat (xs @ spec_list_param name st addrs)
          = occurrences pat xs
              + occurrences pat ((name @ ''='') @ spec_join (map (\<lambda>x. uri_escaped (address x)) addrs))"
    using False occurrences_sep [OF assms(1,3,4)] by (simp add: spec_list_param_def)
  also have "occurrences pat ((name @ ''='') @ spec_join (map (\<lambda>x. uri_escaped (address x)) addrs))
               = occurrences pat (name @ ''='')"
    using assms(1,2) spec_join_no_equals by (intro occurrences_tail) simp_all
  finally show ?thesis using False by simp
qed

lemma occurrences_title_param:
  assumes "pat \<noteq> []" "last pat = CHR ''=''" "CHR ''?'' \<notin> set pat" "CHR ''&'' \<notin> set pat"
  shows "occurrences pat (xs @ spec_title_param st t ex)
           = occurrences pat xs
               + (case t of
                    None \<Rightarrow> 0
                  | Some txt \<Rightarrow> occurrences pat ''title=''
                      + (if ex then occurrences pat ''title-exact=true'' else 0))"
proof (cases t)
  case None
  then show ?thesis by (simp add: spec_title_param_def)
next
  case (Some tx)
  have e: "occurrences pat (''title='' @ uri_escaped tx) = occurrences pat ''title=''"
    using assms(1,2) uri_escaped_no_equals by (intro occurrences_tail) simp_all
  show ?thesis
  proof (cases ex)
    case True
    have "occurrences pat (xs @ spec_title_param st t ex)
            = occurrences pat xs
                + occurrences pat ((''title='' @ uri_escaped tx) @ CHR ''&'' # ''title-exact=true'')"
      using Some True occurrences_sep [OF assms(1,3,4)] by (simp add: spec_title_param_def)
    also have "occurrences pat ((''title='' @ uri_escaped tx) @ CHR ''&'' # ''title-exact=true'')
                 = occurrences pat (''title='' @ uri_escaped tx) + occurrences pat ''title-exact=true''"
      using assms(1,4) by (rule occurrences_split [rotated])
    finally show ?thesis using Some True e by simp
  next
    case False
    have "occurrences pat (xs @ spec_title_param st t ex)
            = occurrences pat xs + occurrences pat (''title='' @ uri_escaped tx)"
      using Some False occurrences_sep [OF assms(1,3,4)] by (simp add: spec_title_param_def)
    then show ?thesis using Some False e by simp
  qed
qed

lemma occurrences_visibility_params:
  assumes "pat \<noteq> []" "CHR ''?'' \<notin> set pat" "CHR ''&'' \<notin> set pat"
  shows "occurrences pat (xs @ spec_visibility_params st sd sf)
           = occurrences pat xs + occurrences pat (''showdeleted='' @ spec_bool sd)
               + occurrences pat (''showfolders='' @ spec_bool sf)"
proof -
  have "occurrences pat (xs @ spec_visibility_params st sd sf)
          = occurrences pat xs
              + occurrences pat ((''showdeleted='' @ spec_bool sd) @ CHR ''&'' # (''showfolders='' @ spec_bool sf))"
    using occurrences_sep [OF assms] by (simp add: spec_visibility_params_def)
  also have "occurrences pat ((''showdeleted='' @ spec_bool sd) @ CHR ''&'' # (''showfolders='' @ spec_bool sf))
               = occurrences pat (''showdeleted='' @ spec_bool sd)
                   + occurrences pat (''showfolders='' @ spec_bool sf)"
    using assms(1,3) by (rule occurrences_split [rotated])
  finally show ?thesis by simp
qed

lemma occurrences_document_params:
  assumes "pat \<noteq> []" "last pat = CHR ''=''" "CHR ''?'' \<notin> set pat" "CHR ''&'' \<notin> set pat"
  shows "occurrences pat (spec_document_params st q)
           = (if collaborator_addresses q = [] then 0 else occurrences pat ''writer='')
               + (if reader_addresses q = [] then 0 else occurrences pat ''reader='')
               + (case title q of
                    None \<Rightarrow> 0
                  | Some txt \<Rightarrow> occurrences pat ''title=''
                      + (if exact_title q then occurrences pat ''title-exact=true'' else 0))
               + occurrences pat (''showdeleted='' @ spec_bool (show_deleted q))
               + occurrences pat (''showfolders='' @ spec_bool (show_folders q))"
proof -
  define W where "W = spec_list_param ''writer'' st (collaborator_addresses q)"
  define R where "R = spec_list_param ''reader'' (st \<or> collaborator_addresses q \<noteq> [])
                        (reader_addresses q)"
  define T where "T = spec_title_param
                        ((st \<or> collaborator_addresses q \<noteq> []) \<or> reader_addresses q \<noteq> [])
                        (title q) (exact_title q)"
  define V where "V = spec_visibility_params
                        (((st \<or> collaborator_addresses q \<noteq> []) \<or> reader_addresses q \<noteq> [])
                           \<or> title q \<noteq> None)
                        (show_deleted q) (show_folders q)"
  have d: "spec_document_params st q = ((([] @ W) @ R) @ T) @ V"
    by (simp only: spec_document_params_def Let_def W_def R_def T_def V_def append_Nil
          append_assoc)
  show ?thesis
    unfolding d
    unfolding V_def occurrences_visibility_params [OF assms(1,3,4)]
    unfolding T_def occurrences_title_param [OF assms]
    unfolding R_def occurrences_list_param [OF assms]
    unfolding W_def occurrences_list_param [OF assms]
    by simp
qed

lemma count_writer:
  "occurrences ''writer='' (spec_document_params st q)
     = (if collaborator_addresses q = [] then 0 else 1)"
  by (subst occurrences_document_params) (simp_all add: spec_bool_def split: option.split)

lemma count_reader:
  "occurrences ''reader='' (spec_document_params st q)
     = (if reader_addresses q = [] then 0 else 1)"
  by (subst occurrences_document_params) (simp_all add: spec_bool_def split: option.split)

lemma count_title:
  "occurrences ''title='' (spec_document_params st q) = (if title q = None then 0 else 1)"
  by (subst occurrences_document_params) (simp_all add: spec_bool_def split: option.split)

lemma count_title_exact:
  "occurrences ''title-exact='' (spec_document_params st q)
     = (if title q \<noteq> None \<and> exact_title q then 1 else 0)"
  by (subst occurrences_document_params) (simp_all add: spec_bool_def split: option.split)

lemma count_showdeleted:
  "occurrences ''showdeleted='' (spec_document_params st q) = 1"
  by (subst occurrences_document_params) (simp_all add: spec_bool_def split: option.split)

lemma count_showfolders:
  "occurrences ''showfolders='' (spec_document_params st q) = 1"
  by (subst occurrences_document_params) (simp_all add: spec_bool_def split: option.split)

subsection \<open>The collection case as one equation\<close>

lemma collection_appended:
  assumes "gdata_query_get_entry_id (self s) = None"
    and "s2 = chain_up parent feed_uri
                (s\<lparr>query_uri := query_uri s @ spec_path_extension (folder_id (self s))\<rparr>)"
  shows "query_uri (get_query_uri parent feed_uri s)
           = query_uri s2 @ spec_document_params (params_started s2) (self s)"
    and "drop (length (query_uri s2)) (query_uri (get_query_uri parent feed_uri s))
           = spec_document_params (params_started s2) (self s)"
    and "params_started (get_query_uri parent feed_uri s)"
    and "self (get_query_uri parent feed_uri s) = self s"
proof -
  from assms(1) have e: "entry_id (self s) = None" by (simp add: gdata_query_get_entry_id_def)
  note m = get_query_uri_collection [OF e assms(2)]
  show "query_uri (get_query_uri parent feed_uri s)
          = query_uri s2 @ spec_document_params (params_started s2) (self s)"
    by (simp add: m)
  then show "drop (length (query_uri s2)) (query_uri (get_query_uri parent feed_uri s))
          = spec_document_params (params_started s2) (self s)"
    by simp
  show "params_started (get_query_uri parent feed_uri s)" by (simp add: m)
  show "self (get_query_uri parent feed_uri s) = self s"
    by (simp add: m assms(2) self_chain_up)
qed

lemma self_get_query_uri: "self (get_query_uri parent feed_uri s) = self s"
proof (cases "entry_id (self s)")
  case None
  then have "gdata_query_get_entry_id (self s) = None" by (simp add: gdata_query_get_entry_id_def)
  then show ?thesis by (rule collection_appended(4) [OF _ refl])
next
  case (Some e)
  then show ?thesis by (simp add: get_query_uri_entry self_chain_up)
qed

subsection \<open>The path segment and the first question mark\<close>

lemma uri_escaped_no_question: "CHR ''?'' \<notin> set (uri_escaped v)"
  using uri_escaped_no_delimiter [of "CHR ''?''" v] by (auto simp: delimiters_def)

lemma spec_path_extension_no_question: "CHR ''?'' \<notin> set (spec_path_extension fid)"
  by (cases fid) (simp_all add: spec_path_extension_def uri_escaped_no_question)

lemma before_query_prefix:
  assumes "CHR ''?'' \<notin> set xs" "prefix xs ys"
  shows "prefix xs (before_query ys)"
proof -
  from assms(2) obtain zs where "ys = xs @ zs" by (auto simp: prefix_def)
  moreover from assms(1) have "takeWhile (\<lambda>c. c \<noteq> CHR ''?'') (xs @ zs)
      = xs @ takeWhile (\<lambda>c. c \<noteq> CHR ''?'') zs"
    by (intro takeWhile_append2) auto
  ultimately show ?thesis by (simp add: before_query_def)
qed

subsection \<open>The string setters\<close>

text \<open>
  What the two setters return for each kind of argument. Only the stored pointer of a set
  field leads to the read of freed memory.
\<close>

lemma set_folder_id_result:
  "gdata_documents_query_set_folder_id q Null = Inr (q\<lparr>folder_id := None\<rparr>)"
  "gdata_documents_query_set_folder_id q (Own v) = Inr (q\<lparr>folder_id := Some v\<rparr>)"
  "gdata_documents_query_set_folder_id q Stored
     = (case folder_id q of None \<Rightarrow> Inr (q\<lparr>folder_id := None\<rparr>) | Some _ \<Rightarrow> Inl UseAfterFree)"
  by (simp_all add: gdata_documents_query_set_folder_id_def g_free_def g_strdup_def Let_def
        split: option.split)

lemma set_title_result:
  "gdata_documents_query_set_title q Null ex = Inr (q\<lparr>title := None, exact_title := ex\<rparr>)"
  "gdata_documents_query_set_title q (Own v) ex = Inr (q\<lparr>title := Some v, exact_title := ex\<rparr>)"
  "gdata_documents_query_set_title q Stored ex
     = (case title q of
          None \<Rightarrow> Inr (q\<lparr>title := None, exact_title := ex\<rparr>)
        | Some _ \<Rightarrow> Inl UseAfterFree)"
  by (simp_all add: gdata_documents_query_set_title_def g_free_def g_strdup_def Let_def
        split: option.split)

lemma set_title_exact:
  assumes "gdata_documents_query_set_title q p ex = Inr q'"
  shows "exact_title q' = ex"
proof (cases p)
  case Null
  with assms show ?thesis by (auto simp: set_title_result)
next
  case (Own v)
  with assms show ?thesis by (auto simp: set_title_result)
next
  case Stored
  with assms show ?thesis by (auto simp: set_title_result split: option.splits)
qed

lemma set_property_title:
  "gdata_documents_query_set_property q PROP_TITLE v
     = Inr (q\<lparr>title := g_value_string v, exact_title := True\<rparr>)"
  by (cases "g_value_string v")
     (simp_all add: gdata_documents_query_set_property_def g_value_get_string_def
        set_title_result PROP_SHOW_DELETED_def PROP_SHOW_FOLDERS_def PROP_FOLDER_ID_def
        PROP_EXACT_TITLE_def PROP_TITLE_def)

section \<open>The claims\<close>

text \<open>
  C1. When the entry ID is present, the composition step appends nothing of its own: the
  state it returns is exactly the one the base step returns on the untouched buffer. No
  \<open>/folder%3A\<close> segment is put in front (even with a folder ID set), and no
  \<open>writer=\<close>, \<open>reader=\<close>, \<open>title=\<close>, \<open>showdeleted=\<close> or \<open>showfolders=\<close>
  parameter behind.
\<close>

theorem entry_id_short_circuit:
  assumes "gdata_query_get_entry_id (self s) = Some e"
  shows "get_query_uri parent feed_uri s = chain_up parent feed_uri s
         \<and> query_uri (get_query_uri parent feed_uri s)
             = fst (parent (self s) feed_uri (query_uri s, params_started s))
         \<and> params_started (get_query_uri parent feed_uri s)
             = snd (parent (self s) feed_uri (query_uri s, params_started s))"
proof -
  from assms have "entry_id (self s) = Some e" by (simp add: gdata_query_get_entry_id_def)
  then have "get_query_uri parent feed_uri s = chain_up parent feed_uri s"
    by (rule get_query_uri_entry)
  then show ?thesis by (simp add: chain_up_def split: prod.split)
qed

theorem entry_id_short_circuit_witness:
  "gdata_query_get_entry_id (self (start_state example_entry_query example_feed_uri)) = Some ''doc1''
   \<and> folder_id (self (start_state example_entry_query example_feed_uri)) = Some ''abc''
   \<and> query_uri (get_query_uri parent_no_params example_feed_uri
         (start_state example_entry_query example_feed_uri)) = example_feed_uri"
proof -
  have h: "gdata_query_get_entry_id (self (start_state example_entry_query example_feed_uri))
             = Some ''doc1''"
    by (simp add: gdata_query_get_entry_id_def start_state_def example_entry_query_def)
  have f: "folder_id (self (start_state example_entry_query example_feed_uri)) = Some ''abc''"
    by (simp add: start_state_def example_entry_query_def example_query_def)
  have "query_uri (get_query_uri parent_no_params example_feed_uri
          (start_state example_entry_query example_feed_uri))
        = fst (parent_no_params (self (start_state example_entry_query example_feed_uri))
                 example_feed_uri
                 (query_uri (start_state example_entry_query example_feed_uri),
                  params_started (start_state example_entry_query example_feed_uri)))"
    using entry_id_short_circuit [OF h] by blast
  then have "query_uri (get_query_uri parent_no_params example_feed_uri
          (start_state example_entry_query example_feed_uri)) = example_feed_uri"
    by (simp add: parent_no_params_def start_state_def)
  with h f show ?thesis by simp
qed


text \<open>
  C2, amended. For every query whose entry ID is absent, the output ends with the
  separator chosen by the params-started flag, \<open>showdeleted=\<close> with the literal
  \<open>true\<close> or \<open>false\<close> of the stored boolean, and \<open>&showfolders=\<close> with the literal
  of the other stored boolean, whatever the other fields hold. The flag at that point is
  set when the base step left it set or a writer, reader or title parameter was written.
  Each of the two names occurs once in what the step appends, and the flag is set on return.
\<close>

theorem visibility_flags_collection:
  assumes "gdata_query_get_entry_id (self s) = None"
    and "s2 = chain_up parent feed_uri
                (s\<lparr>query_uri := query_uri s @ spec_path_extension (folder_id (self s))\<rparr>)"
    and "started = (((params_started s2 \<or> collaborator_addresses (self s) \<noteq> [])
                      \<or> reader_addresses (self s) \<noteq> []) \<or> title (self s) \<noteq> None)"
  shows "suffix (spec_sep started @ ''showdeleted='' @ spec_bool (show_deleted (self s))
                   @ ''&showfolders='' @ spec_bool (show_folders (self s)))
           (query_uri (get_query_uri parent feed_uri s))
         \<and> occurrences ''showdeleted=''
             (drop (length (query_uri s2)) (query_uri (get_query_uri parent feed_uri s))) = 1
         \<and> occurrences ''showfolders=''
             (drop (length (query_uri s2)) (query_uri (get_query_uri parent feed_uri s))) = 1
         \<and> params_started (get_query_uri parent feed_uri s)"
proof -
  note c = collection_appended [OF assms(1,2)]
  have "suffix (spec_visibility_params started (show_deleted (self s)) (show_folders (self s)))
          (query_uri (get_query_uri parent feed_uri s))"
    unfolding c(1) spec_document_params_def Let_def assms(3)
    by (simp only: suffix_def append_assoc [symmetric]) blast
  then have "suffix (spec_sep started @ ''showdeleted='' @ spec_bool (show_deleted (self s))
                   @ ''&showfolders='' @ spec_bool (show_folders (self s)))
           (query_uri (get_query_uri parent feed_uri s))"
    by (simp only: spec_visibility_params_def)
  moreover have "occurrences ''showdeleted=''
             (drop (length (query_uri s2)) (query_uri (get_query_uri parent feed_uri s))) = 1"
    by (simp only: c(2) count_showdeleted)
  moreover have "occurrences ''showfolders=''
             (drop (length (query_uri s2)) (query_uri (get_query_uri parent feed_uri s))) = 1"
    by (simp only: c(2) count_showfolders)
  ultimately show ?thesis using c(3) by blast
qed

theorem visibility_flags_collection_witness:
  "gdata_query_get_entry_id (self (start_state example_query example_feed_uri)) = None
   \<and> suffix ''&showdeleted=false&showfolders=true''
       (query_uri (get_query_uri parent_no_params example_feed_uri
          (start_state example_query example_feed_uri)))
   \<and> suffix ''?showdeleted=false&showfolders=false''
       (query_uri (get_query_uri parent_no_params example_feed_uri
          (start_state gdata_documents_query_init example_feed_uri)))"
proof -
  have h1: "gdata_query_get_entry_id (self (start_state example_query example_feed_uri)) = None"
    by (simp add: gdata_query_get_entry_id_def start_state_def example_query_def)
  have h2: "gdata_query_get_entry_id (self (start_state gdata_documents_query_init example_feed_uri))
              = None"
    by (simp add: gdata_query_get_entry_id_def start_state_def gdata_documents_query_init_def)
  have "suffix ''&showdeleted=false&showfolders=true''
       (query_uri (get_query_uri parent_no_params example_feed_uri
          (start_state example_query example_feed_uri)))"
    using visibility_flags_collection [OF h1 refl refl, of parent_no_params example_feed_uri]
    by (simp add: start_state_def example_query_def spec_sep_def spec_bool_def)
  moreover have "suffix ''?showdeleted=false&showfolders=false''
       (query_uri (get_query_uri parent_no_params example_feed_uri
          (start_state gdata_documents_query_init example_feed_uri)))"
    using visibility_flags_collection [OF h2 refl refl, of parent_no_params example_feed_uri]
    by (simp add: start_state_def gdata_documents_query_init_def spec_sep_def spec_bool_def
          chain_up_def parent_no_params_def)
  ultimately show ?thesis using h1 by blast
qed

text \<open>
  The claim as stated covers every query. For a single-entry query the output carries no
  visibility flag at all: the step returns right after the base step.
\<close>

theorem visibility_flags_entry_counterexample:
  "gdata_query_get_entry_id example_entry_query = Some ''doc1''
   \<and> query_uri (get_query_uri parent_no_params example_feed_uri
         (start_state example_entry_query example_feed_uri))
       = ''https://docs.example.com/feeds/default/private/full''
   \<and> occurrences ''showdeleted='' (query_uri (get_query_uri parent_no_params example_feed_uri
         (start_state example_entry_query example_feed_uri))) = 0
   \<and> occurrences ''showfolders='' (query_uri (get_query_uri parent_no_params example_feed_uri
         (start_state example_entry_query example_feed_uri))) = 0"
  by code_simp

text \<open>
  C3, amended. For every query with the entry ID absent, the step puts the path segment
  right behind the incoming buffer, before the base step runs and so before every
  parameter the composition writes: with a folder ID the segment is the literal
  \<open>/folder%3A\<close> followed by the escaped folder ID, and without one it is empty, that is,
  the base step gets the buffer as it came. The literal \<open>%3A\<close> is not passed through the
  escaping. The segment holds no question mark. So when the incoming buffer holds none
  either and the base step only appends, the segment lies in front of the first question
  mark of the output.
\<close>

theorem folder_path_extension:
  assumes "gdata_query_get_entry_id (self s) = None"
    and "path = (case folder_id (self s) of
                   None \<Rightarrow> []
                 | Some fid \<Rightarrow> ''/folder%3A'' @ uri_escaped fid)"
    and "s2 = chain_up parent feed_uri (s\<lparr>query_uri := query_uri s @ path\<rparr>)"
  shows "query_uri (get_query_uri parent feed_uri s)
           = query_uri s2 @ spec_document_params (params_started s2) (self s)
         \<and> CHR ''?'' \<notin> set path
         \<and> (CHR ''?'' \<notin> set (query_uri s) \<and> prefix (query_uri s @ path) (query_uri s2)
              \<longrightarrow> prefix (query_uri s @ path)
                    (before_query (query_uri (get_query_uri parent feed_uri s))))"
proof -
  have p: "path = spec_path_extension (folder_id (self s))"
    by (simp add: assms(2) spec_path_extension_def)
  have q: "query_uri (get_query_uri parent feed_uri s)
             = query_uri s2 @ spec_document_params (params_started s2) (self s)"
    using collection_appended(1) [OF assms(1)] assms(3) p by simp
  have n: "CHR ''?'' \<notin> set path"
    by (simp only: p spec_path_extension_no_question not_False_eq_True)
  have "prefix (query_uri s @ path) (before_query (query_uri (get_query_uri parent feed_uri s)))"
    if a: "CHR ''?'' \<notin> set (query_uri s)" and b: "prefix (query_uri s @ path) (query_uri s2)"
  proof -
    from a n have "CHR ''?'' \<notin> set (query_uri s @ path)" by simp
    moreover from b have "prefix (query_uri s @ path) (query_uri (get_query_uri parent feed_uri s))"
      unfolding q by (rule prefix_prefix)
    ultimately show ?thesis by (rule before_query_prefix)
  qed
  with q n show ?thesis by blast
qed

theorem folder_path_extension_witness:
  "gdata_query_get_entry_id (self (start_state example_query example_feed_uri)) = None
   \<and> folder_id (self (start_state example_query example_feed_uri)) = Some ''abc''
   \<and> CHR ''?'' \<notin> set (query_uri (start_state example_query example_feed_uri))
   \<and> prefix ''https://docs.example.com/feeds/default/private/full/folder%3Aabc''
       (before_query (query_uri (get_query_uri parent_search_term example_feed_uri
          (start_state example_query example_feed_uri))))"
proof -
  have h: "gdata_query_get_entry_id (self (start_state example_query example_feed_uri)) = None"
    by (simp add: gdata_query_get_entry_id_def start_state_def example_query_def)
  have f: "folder_id (self (start_state example_query example_feed_uri)) = Some ''abc''"
    by (simp add: start_state_def example_query_def)
  have e: "uri_escaped ''abc'' = ''abc''" by code_simp
  have n: "CHR ''?'' \<notin> set (query_uri (start_state example_query example_feed_uri))"
    by (simp add: start_state_def example_feed_uri_def)
  have p: "''/folder%3Aabc''
             = (case folder_id (self (start_state example_query example_feed_uri)) of
                  None \<Rightarrow> []
                | Some fid \<Rightarrow> ''/folder%3A'' @ uri_escaped fid)"
    by (simp add: f e del: uri_escaped.simps)
  have x: "prefix (query_uri (start_state example_query example_feed_uri) @ ''/folder%3Aabc'')
             (query_uri (chain_up parent_search_term example_feed_uri
                ((start_state example_query example_feed_uri)
                   \<lparr>query_uri := query_uri (start_state example_query example_feed_uri)
                      @ ''/folder%3Aabc''\<rparr>)))"
    by (simp add: chain_up_def parent_search_term_def start_state_def)
  note t = folder_path_extension [OF h p refl, of parent_search_term example_feed_uri]
  from t n x
  have "prefix (query_uri (start_state example_query example_feed_uri) @ ''/folder%3Aabc'')
          (before_query (query_uri (get_query_uri parent_search_term example_feed_uri
             (start_state example_query example_feed_uri))))"
    by blast
  then have "prefix ''https://docs.example.com/feeds/default/private/full/folder%3Aabc''
       (before_query (query_uri (get_query_uri parent_search_term example_feed_uri
          (start_state example_query example_feed_uri))))"
    by (simp add: start_state_def example_feed_uri_def)
  with h f n show ?thesis by blast
qed

text \<open>
  The claim as stated places the segment before any question mark for every query. The
  buffer the step receives may already carry a query string (the flag is then already set
  on entry); the segment is appended behind it all the same.
\<close>

theorem folder_path_after_query_counterexample:
  "gdata_query_get_entry_id example_folder_query = None
   \<and> gdata_documents_query_get_folder_id example_folder_query = Some ''abc''
   \<and> query_uri (get_query_uri parent_no_params example_feed_uri_with_query
         \<lparr>self = example_folder_query, query_uri = example_feed_uri_with_query,
          params_started = True\<rparr>)
       = ''https://docs.example.com/feeds/default/private/full?alt=json/folder%3Aabc&showdeleted=false&showfolders=false''
   \<and> before_query (query_uri (get_query_uri parent_no_params example_feed_uri_with_query
         \<lparr>self = example_folder_query, query_uri = example_feed_uri_with_query,
          params_started = True\<rparr>))
       = ''https://docs.example.com/feeds/default/private/full''
   \<and> occurrences ''/folder%3Aabc''
         (before_query (query_uri (get_query_uri parent_no_params example_feed_uri_with_query
            \<lparr>self = example_folder_query, query_uri = example_feed_uri_with_query,
             params_started = True\<rparr>))) = 0"
  by code_simp

text \<open>
  C4. For every query with the entry ID absent, what follows the base step's output
  starts with the writer parameter and then the reader parameter. A non-empty collaborator
  list gives the separator chosen by the flag, \<open>writer=\<close> and the addresses, each escaped
  on its own, joined by semicolons in list order, with nothing before the first; the flag
  counts as set for the reader parameter, which has the same shape under \<open>reader=\<close>. An
  empty list gives nothing. In all that the step appends, \<open>writer=\<close> occurs once if the
  collaborator list is non-empty and not at all otherwise, and likewise \<open>reader=\<close>.
\<close>

theorem collaborator_reader_params:
  assumes "gdata_query_get_entry_id (self s) = None"
    and "s2 = chain_up parent feed_uri
                (s\<lparr>query_uri := query_uri s @ spec_path_extension (folder_id (self s))\<rparr>)"
    and "appended = drop (length (query_uri s2)) (query_uri (get_query_uri parent feed_uri s))"
  shows "prefix
           (query_uri s2
              @ spec_list_param ''writer'' (params_started s2) (collaborator_addresses (self s))
              @ spec_list_param ''reader''
                  (params_started s2 \<or> collaborator_addresses (self s) \<noteq> [])
                  (reader_addresses (self s)))
           (query_uri (get_query_uri parent feed_uri s))
         \<and> occurrences ''writer='' appended
             = (if collaborator_addresses (self s) = [] then 0 else 1)
         \<and> occurrences ''reader='' appended
             = (if reader_addresses (self s) = [] then 0 else 1)"
proof -
  note c = collection_appended [OF assms(1,2)]
  have "prefix
           (query_uri s2
              @ spec_list_param ''writer'' (params_started s2) (collaborator_addresses (self s))
              @ spec_list_param ''reader''
                  (params_started s2 \<or> collaborator_addresses (self s) \<noteq> [])
                  (reader_addresses (self s)))
           (query_uri (get_query_uri parent feed_uri s))"
    unfolding c(1) spec_document_params_def Let_def
    by (simp only: prefix_def append_assoc) blast
  moreover have "occurrences ''writer='' appended
             = (if collaborator_addresses (self s) = [] then 0 else 1)"
    by (simp only: assms(3) c(2) count_writer)
  moreover have "occurrences ''reader='' appended
             = (if reader_addresses (self s) = [] then 0 else 1)"
    by (simp only: assms(3) c(2) count_reader)
  ultimately show ?thesis by blast
qed

theorem collaborator_reader_params_witness:
  "gdata_query_get_entry_id (self (start_state example_query example_feed_uri)) = None
   \<and> prefix ''https://docs.example.com/feeds/default/private/full/folder%3Aabc?q=report&writer=a%40x.com;b%40y.com&reader=c%40z.org''
       (query_uri (get_query_uri parent_search_term example_feed_uri
          (start_state example_query example_feed_uri)))
   \<and> occurrences ''writer=''
         (drop (length ''https://docs.example.com/feeds/default/private/full/folder%3Aabc?q=report'')
            (query_uri (get_query_uri parent_search_term example_feed_uri
               (start_state example_query example_feed_uri)))) = 1
   \<and> occurrences ''reader=''
         (drop (length ''https://docs.example.com/feeds/default/private/full/folder%3Aabc?q=report'')
            (query_uri (get_query_uri parent_search_term example_feed_uri
               (start_state example_query example_feed_uri)))) = 1
   \<and> gdata_query_get_entry_id (self (start_state example_readers_query example_feed_uri)) = None
   \<and> prefix ''https://docs.example.com/feeds/default/private/full?reader=a%40x.com;b%40y.com''
       (query_uri (get_query_uri parent_no_params example_feed_uri
          (start_state example_readers_query example_feed_uri)))
   \<and> occurrences ''writer=''
         (drop (length ''https://docs.example.com/feeds/default/private/full'')
            (query_uri (get_query_uri parent_no_params example_feed_uri
               (start_state example_readers_query example_feed_uri)))) = 0"
proof -
  have h: "gdata_query_get_entry_id (self (start_state example_query example_feed_uri)) = None"
    by (simp add: gdata_query_get_entry_id_def start_state_def example_query_def)
  have b: "chain_up parent_search_term example_feed_uri
             ((start_state example_query example_feed_uri)
                \<lparr>query_uri := query_uri (start_state example_query example_feed_uri)
                     @ spec_path_extension (folder_id (self (start_state example_query example_feed_uri)))\<rparr>)
           = \<lparr>self = example_query,
              query_uri = ''https://docs.example.com/feeds/default/private/full/folder%3Aabc?q=report'',
              params_started = True\<rparr>"
    by code_simp
  have w: "spec_list_param ''writer'' True (collaborator_addresses example_query)
             = ''&writer=a%40x.com;b%40y.com''"
    by code_simp
  have r: "spec_list_param ''reader'' True (reader_addresses example_query) = ''&reader=c%40z.org''"
    by code_simp
  have ne: "collaborator_addresses example_query \<noteq> []" "reader_addresses example_query \<noteq> []"
    by (simp_all add: example_query_def)
  have s: "self (start_state example_query example_feed_uri) = example_query"
    by (simp add: start_state_def)
  note t = collaborator_reader_params [OF h b [symmetric] refl]
  from t have first: "prefix ''https://docs.example.com/feeds/default/private/full/folder%3Aabc?q=report&writer=a%40x.com;b%40y.com&reader=c%40z.org''
       (query_uri (get_query_uri parent_search_term example_feed_uri
          (start_state example_query example_feed_uri)))
   \<and> occurrences ''writer=''
         (drop (length ''https://docs.example.com/feeds/default/private/full/folder%3Aabc?q=report'')
            (query_uri (get_query_uri parent_search_term example_feed_uri
               (start_state example_query example_feed_uri)))) = 1
   \<and> occurrences ''reader=''
         (drop (length ''https://docs.example.com/feeds/default/private/full/folder%3Aabc?q=report'')
            (query_uri (get_query_uri parent_search_term example_feed_uri
               (start_state example_query example_feed_uri)))) = 1"
    by (simp add: s w r ne del: uri_escaped.simps)
  have h': "gdata_query_get_entry_id (self (start_state example_readers_query example_feed_uri)) = None"
    by code_simp
  have b': "chain_up parent_no_params example_feed_uri
             ((start_state example_readers_query example_feed_uri)
                \<lparr>query_uri := query_uri (start_state example_readers_query example_feed_uri)
                     @ spec_path_extension
                         (folder_id (self (start_state example_readers_query example_feed_uri)))\<rparr>)
           = \<lparr>self = example_readers_query,
              query_uri = ''https://docs.example.com/feeds/default/private/full'',
              params_started = False\<rparr>"
    by code_simp
  have w': "collaborator_addresses example_readers_query = []" by code_simp
  have r': "spec_list_param ''reader'' False (reader_addresses example_readers_query)
              = ''?reader=a%40x.com;b%40y.com''"
    by code_simp
  have s': "self (start_state example_readers_query example_feed_uri) = example_readers_query"
    by (simp add: start_state_def)
  note t' = collaborator_reader_params [OF h' b' [symmetric] refl]
  from t' have second: "prefix ''https://docs.example.com/feeds/default/private/full?reader=a%40x.com;b%40y.com''
       (query_uri (get_query_uri parent_no_params example_feed_uri
          (start_state example_readers_query example_feed_uri)))
   \<and> occurrences ''writer=''
         (drop (length ''https://docs.example.com/feeds/default/private/full'')
            (query_uri (get_query_uri parent_no_params example_feed_uri
               (start_state example_readers_query example_feed_uri)))) = 0"
    by (simp add: s' w' r' spec_list_param_def [of _ _ "[]"] del: uri_escaped.simps)
  from h first h' second show ?thesis by blast
qed

text \<open>
  C5. For every query with the entry ID absent, the output is the writer and reader
  parameters, then the title parameter, then the visibility flags. A title that is set,
  the empty string included, gives the separator, \<open>title=\<close> and the escaped title,
  directly followed by the literal \<open>&title-exact=true\<close> when the exact-title flag is
  set. An unset title gives nothing, whatever the exact-title flag: in all that the step
  appends, \<open>title=\<close> occurs once if the title is set and not at all otherwise, and
  \<open>title-exact=\<close> occurs once if the title is set and the flag is set, and not at all
  otherwise.
\<close>

theorem title_param:
  assumes "gdata_query_get_entry_id (self s) = None"
    and "s2 = chain_up parent feed_uri
                (s\<lparr>query_uri := query_uri s @ spec_path_extension (folder_id (self s))\<rparr>)"
    and "started = ((params_started s2 \<or> collaborator_addresses (self s) \<noteq> [])
                      \<or> reader_addresses (self s) \<noteq> [])"
    and "before = query_uri s2
                    @ spec_list_param ''writer'' (params_started s2) (collaborator_addresses (self s))
                    @ spec_list_param ''reader''
                        (params_started s2 \<or> collaborator_addresses (self s) \<noteq> [])
                        (reader_addresses (self s))"
    and "appended = drop (length (query_uri s2)) (query_uri (get_query_uri parent feed_uri s))"
  shows "query_uri (get_query_uri parent feed_uri s)
           = before
               @ (case title (self s) of
                    None \<Rightarrow> []
                  | Some t \<Rightarrow>
                      spec_sep started @ ''title='' @ uri_escaped t
                        @ (if exact_title (self s) then ''&title-exact=true'' else []))
               @ spec_visibility_params (started \<or> title (self s) \<noteq> None)
                   (show_deleted (self s)) (show_folders (self s))
         \<and> occurrences ''title='' appended = (if title (self s) = None then 0 else 1)
         \<and> occurrences ''title-exact='' appended
             = (if title (self s) \<noteq> None \<and> exact_title (self s) then 1 else 0)"
proof -
  note c = collection_appended [OF assms(1,2)]
  have "query_uri (get_query_uri parent feed_uri s)
           = before
               @ spec_title_param started (title (self s)) (exact_title (self s))
               @ spec_visibility_params (started \<or> title (self s) \<noteq> None)
                   (show_deleted (self s)) (show_folders (self s))"
    unfolding c(1) spec_document_params_def Let_def assms(3,4)
    by (simp only: append_assoc)
  then have "query_uri (get_query_uri parent feed_uri s)
           = before
               @ (case title (self s) of
                    None \<Rightarrow> []
                  | Some t \<Rightarrow>
                      spec_sep started @ ''title='' @ uri_escaped t
                        @ (if exact_title (self s) then ''&title-exact=true'' else []))
               @ spec_visibility_params (started \<or> title (self s) \<noteq> None)
                   (show_deleted (self s)) (show_folders (self s))"
    by (simp only: spec_title_param_def)
  moreover have "occurrences ''title='' appended = (if title (self s) = None then 0 else 1)"
    by (simp only: assms(5) c(2) count_title)
  moreover have "occurrences ''title-exact='' appended
             = (if title (self s) \<noteq> None \<and> exact_title (self s) then 1 else 0)"
    by (simp only: assms(5) c(2) count_title_exact)
  ultimately show ?thesis by blast
qed

theorem title_param_witness:
  "gdata_query_get_entry_id (self (start_state example_title_query example_feed_uri)) = None
   \<and> query_uri (get_query_uri parent_no_params example_feed_uri
        (start_state example_title_query example_feed_uri))
      = ''https://docs.example.com/feeds/default/private/full?title=Annual%20Report&title-exact=true&showdeleted=false&showfolders=false''
   \<and> query_uri (get_query_uri parent_search_term example_feed_uri
        (start_state example_title_query example_feed_uri))
      = ''https://docs.example.com/feeds/default/private/full?q=report&title=Annual%20Report&title-exact=true&showdeleted=false&showfolders=false''"
proof -
  have h: "gdata_query_get_entry_id (self (start_state example_title_query example_feed_uri)) = None"
    by code_simp
  have s: "self (start_state example_title_query example_feed_uri) = example_title_query"
    by (simp add: start_state_def)
  have q: "title example_title_query = Some ''Annual Report''" "exact_title example_title_query"
    "collaborator_addresses example_title_query = []" "reader_addresses example_title_query = []"
    "\<not> show_deleted example_title_query" "\<not> show_folders example_title_query"
    "folder_id example_title_query = None"
    by (simp_all add: example_title_query_def gdata_documents_query_init_def)
  have e: "uri_escaped ''Annual Report'' = ''Annual%20Report''" by code_simp
  have b1: "chain_up parent_no_params example_feed_uri
             ((start_state example_title_query example_feed_uri)
                \<lparr>query_uri := query_uri (start_state example_title_query example_feed_uri)
                     @ spec_path_extension (folder_id (self (start_state example_title_query example_feed_uri)))\<rparr>)
           = \<lparr>self = example_title_query,
              query_uri = ''https://docs.example.com/feeds/default/private/full'',
              params_started = False\<rparr>"
    by (simp add: s q chain_up_def parent_no_params_def spec_path_extension_def start_state_def
          example_feed_uri_def)
  have b2: "chain_up parent_search_term example_feed_uri
             ((start_state example_title_query example_feed_uri)
                \<lparr>query_uri := query_uri (start_state example_title_query example_feed_uri)
                     @ spec_path_extension (folder_id (self (start_state example_title_query example_feed_uri)))\<rparr>)
           = \<lparr>self = example_title_query,
              query_uri = ''https://docs.example.com/feeds/default/private/full?q=report'',
              params_started = True\<rparr>"
    by (simp add: s q chain_up_def parent_search_term_def spec_path_extension_def start_state_def
          example_feed_uri_def)
  have "query_uri (get_query_uri parent_no_params example_feed_uri
        (start_state example_title_query example_feed_uri))
      = ''https://docs.example.com/feeds/default/private/full?title=Annual%20Report&title-exact=true&showdeleted=false&showfolders=false''"
    using title_param [OF h b1 [symmetric] refl refl refl]
    by (simp add: s q e spec_list_param_def spec_sep_def spec_visibility_params_def spec_bool_def
          del: uri_escaped.simps)
  moreover have "query_uri (get_query_uri parent_search_term example_feed_uri
        (start_state example_title_query example_feed_uri))
      = ''https://docs.example.com/feeds/default/private/full?q=report&title=Annual%20Report&title-exact=true&showdeleted=false&showfolders=false''"
    using title_param [OF h b2 [symmetric] refl refl refl]
    by (simp add: s q e spec_list_param_def spec_sep_def spec_visibility_params_def spec_bool_def
          del: uri_escaped.simps)
  ultimately show ?thesis using h by blast
qed

text \<open>
  C6. The three states unset, empty and non-empty are to be kept by every operation. The
  two string setters do not keep them when their argument is the pointer the field's own
  accessor returned: they free the stored string first and copy the argument afterwards.
  With the folder ID and the title both set to the empty string, setting either field to
  its own current value reads the freed block, so nothing defined is stored; the same
  call with an empty string of the caller's own, or with NULL, stores the empty string,
  respectively unset.
\<close>

theorem tri_state_lost_on_self_assignment:
  "gdata_documents_query_get_folder_id example_empty_strings_query = Some []
   \<and> gdata_documents_query_set_folder_id example_empty_strings_query
        (field_pointer (gdata_documents_query_get_folder_id example_empty_strings_query))
       = Inl UseAfterFree
   \<and> gdata_documents_query_get_title example_empty_strings_query = Some []
   \<and> gdata_documents_query_set_title example_empty_strings_query
        (field_pointer (gdata_documents_query_get_title example_empty_strings_query)) False
       = Inl UseAfterFree
   \<and> gdata_documents_query_set_folder_id example_empty_strings_query (Own [])
       = Inr example_empty_strings_query
   \<and> gdata_documents_query_set_title example_empty_strings_query (Own []) False
       = Inr example_empty_strings_query
   \<and> gdata_documents_query_set_folder_id example_empty_strings_query Null
       = Inr (example_empty_strings_query\<lparr>folder_id := None\<rparr>)"
  by (simp add: example_empty_strings_query_def gdata_documents_query_init_def
        gdata_documents_query_get_folder_id_def gdata_documents_query_get_title_def
        field_pointer_def set_folder_id_result set_title_result)

text \<open>
  C7, amended. The exact-title flag is a field of its own, and clearing the title does not
  reset it to false: clearing with the title setter stores the exact-title argument of
  that call, whatever it is, so the flag is unchanged when the caller passes the value it
  had; clearing through the title property stores true.
\<close>

theorem exact_title_follows_argument:
  "gdata_documents_query_set_title q Null ex = Inr (q\<lparr>title := None, exact_title := ex\<rparr>)
   \<and> gdata_documents_query_get_title (q\<lparr>title := None, exact_title := ex\<rparr>) = None
   \<and> gdata_documents_query_get_exact_title (q\<lparr>title := None, exact_title := ex\<rparr>) = ex
   \<and> gdata_documents_query_set_title q Null (gdata_documents_query_get_exact_title q)
       = Inr (q\<lparr>title := None\<rparr>)
   \<and> gdata_documents_query_get_exact_title (q\<lparr>title := None\<rparr>)
       = gdata_documents_query_get_exact_title q
   \<and> gdata_documents_query_set_property q PROP_TITLE (GString None)
       = Inr (q\<lparr>title := None, exact_title := True\<rparr>)
   \<and> gdata_documents_query_get_title (q\<lparr>title := None, exact_title := True\<rparr>) = None
   \<and> gdata_documents_query_get_exact_title (q\<lparr>title := None, exact_title := True\<rparr>)"
  by (simp add: set_title_result set_property_title g_value_string_def
        gdata_documents_query_get_title_def gdata_documents_query_get_exact_title_def)

theorem exact_title_follows_argument_witness:
  "gdata_documents_query_get_exact_title example_title_query
   \<and> gdata_documents_query_set_title example_title_query Null True
       = Inr (example_title_query\<lparr>title := None, exact_title := True\<rparr>)
   \<and> gdata_documents_query_get_title (example_title_query\<lparr>title := None, exact_title := True\<rparr>)
       = None
   \<and> gdata_documents_query_get_exact_title
        (example_title_query\<lparr>title := None, exact_title := True\<rparr>)"
proof -
  have "gdata_documents_query_get_exact_title example_title_query" by code_simp
  then show ?thesis
    using exact_title_follows_argument [of example_title_query True] by simp
qed

text \<open>
  The claim as stated has the flag unchanged after every clear. The setter overwrites it
  with its argument, and the property interface with true.
\<close>

theorem exact_title_clear_counterexample:
  "gdata_documents_query_get_exact_title example_title_query
   \<and> gdata_documents_query_set_title example_title_query Null False
       = Inr (example_title_query\<lparr>title := None, exact_title := False\<rparr>)
   \<and> gdata_documents_query_get_title (example_title_query\<lparr>title := None, exact_title := False\<rparr>)
       = None
   \<and> \<not> gdata_documents_query_get_exact_title
          (example_title_query\<lparr>title := None, exact_title := False\<rparr>)
   \<and> \<not> gdata_documents_query_get_exact_title gdata_documents_query_init
   \<and> gdata_documents_query_set_property gdata_documents_query_init PROP_TITLE (GString None)
       = Inr (gdata_documents_query_init\<lparr>title := None, exact_title := True\<rparr>)
   \<and> gdata_documents_query_get_title
        (gdata_documents_query_init\<lparr>title := None, exact_title := True\<rparr>) = None
   \<and> gdata_documents_query_get_exact_title
        (gdata_documents_query_init\<lparr>title := None, exact_title := True\<rparr>)"
  by (simp add: set_title_result set_property_title g_value_string_def
        gdata_documents_query_get_title_def gdata_documents_query_get_exact_title_def
        example_title_query_def gdata_documents_query_init_def)

text \<open>
  C8. With an absent or empty address, adding a collaborator or a reader fails with
  \<open>InvalidArgument\<close> and leaves the whole query as it was. With a non-empty address it
  succeeds and the list in question gets one new principal at its end, with that address,
  the relation tag \<open>collaborator\<close> or \<open>reader\<close>, no label and not primary; the rest
  of the list and every other field stay as they were.
\<close>

theorem add_address:
  "((email_address = None \<or> email_address = Some []) \<longrightarrow>
      gdata_documents_query_add_collaborator q email_address = (Some InvalidArgument, q)
      \<and> gdata_documents_query_add_reader q email_address = (Some InvalidArgument, q))
   \<and> (a \<noteq> [] \<longrightarrow>
        gdata_documents_query_add_collaborator q (Some a)
          = (None,
             q\<lparr>collaborator_addresses :=
                 collaborator_addresses q
                   @ [\<lparr>address = a, relation_type = Some ''collaborator'', label = None,
                       is_primary = False\<rparr>]\<rparr>)
        \<and> gdata_documents_query_add_reader q (Some a)
          = (None,
             q\<lparr>reader_addresses :=
                 reader_addresses q
                   @ [\<lparr>address = a, relation_type = Some ''reader'', label = None,
                       is_primary = False\<rparr>]\<rparr>))"
  by (auto simp: gdata_documents_query_add_collaborator_def gdata_documents_query_add_reader_def
        gdata_gd_email_address_new_def g_list_append_def)

theorem add_address_witness:
  "gdata_documents_query_add_collaborator example_query (Some []) = (Some InvalidArgument, example_query)
   \<and> gdata_documents_query_add_reader example_query None = (Some InvalidArgument, example_query)
   \<and> ''d@w.net'' \<noteq> []
   \<and> fst (gdata_documents_query_add_reader example_query (Some ''d@w.net'')) = None
   \<and> map address (reader_addresses
        (snd (gdata_documents_query_add_reader example_query (Some ''d@w.net''))))
       = [''c@z.org'', ''d@w.net'']
   \<and> map address (collaborator_addresses
        (snd (gdata_documents_query_add_collaborator example_query (Some ''d@w.net''))))
       = [''a@x.com'', ''b@y.com'', ''d@w.net'']"
proof -
  have n: "''d@w.net'' \<noteq> []" by simp
  have 1: "gdata_documents_query_add_collaborator example_query (Some [])
             = (Some InvalidArgument, example_query)"
    using add_address [of "Some []" example_query] by blast
  have 2: "gdata_documents_query_add_reader example_query None = (Some InvalidArgument, example_query)"
    using add_address [of None example_query] by blast
  have 3: "gdata_documents_query_add_reader example_query (Some ''d@w.net'')
          = (None,
             example_query\<lparr>reader_addresses :=
                 reader_addresses example_query
                   @ [\<lparr>address = ''d@w.net'', relation_type = Some ''reader'', label = None,
                       is_primary = False\<rparr>]\<rparr>)"
    using add_address [of _ example_query "''d@w.net''"] n by blast
  have 4: "gdata_documents_query_add_collaborator example_query (Some ''d@w.net'')
          = (None,
             example_query\<lparr>collaborator_addresses :=
                 collaborator_addresses example_query
                   @ [\<lparr>address = ''d@w.net'', relation_type = Some ''collaborator'', label = None,
                       is_primary = False\<rparr>]\<rparr>)"
    using add_address [of _ example_query "''d@w.net''"] n by blast
  show ?thesis
    unfolding 1 2 3 4 by (simp add: example_query_def)
qed

text \<open>
  C9. The composition writes no field of the query, and composing again from the query it
  leaves, with the same buffer and flag to start from, gives the same state, hence the
  same string byte for byte.
\<close>

theorem composition_pure:
  "self (get_query_uri parent feed_uri s) = self s
   \<and> get_query_uri parent feed_uri
        ((get_query_uri parent feed_uri s)
           \<lparr>query_uri := query_uri s, params_started := params_started s\<rparr>)
       = get_query_uri parent feed_uri s"
proof -
  have a: "self (get_query_uri parent feed_uri s) = self s" by (rule self_get_query_uri)
  have b: "(get_query_uri parent feed_uri s)
           \<lparr>query_uri := query_uri s, params_started := params_started s\<rparr> = s"
    by (rule uri_state.equality) (simp_all add: a)
  show ?thesis by (simp only: a b)
qed

theorem composition_pure_witness:
  "query_uri (get_query_uri parent_search_term example_feed_uri
      (start_state
         (self (get_query_uri parent_search_term example_feed_uri
                  (start_state example_query example_feed_uri)))
         example_feed_uri))
   = query_uri (get_query_uri parent_search_term example_feed_uri
       (start_state example_query example_feed_uri))"
  using composition_pure [of parent_search_term example_feed_uri
          "start_state example_query example_feed_uri"]
  by (simp add: start_state_def)

text \<open>
  C10. Setting the title through the property interface stores true in the exact-title
  flag, whatever the flag and the new title are, while the title setter stores the flag
  its caller passes.
\<close>

theorem title_property_forces_exact:
  "gdata_documents_query_set_property q PROP_TITLE v
     = Inr (q\<lparr>title := g_value_string v, exact_title := True\<rparr>)
   \<and> gdata_documents_query_get_exact_title (q\<lparr>title := g_value_string v, exact_title := True\<rparr>)
   \<and> gdata_documents_query_get_title (q\<lparr>title := g_value_string v, exact_title := True\<rparr>)
       = g_value_string v
   \<and> gdata_documents_query_set_title q Null ex = Inr (q\<lparr>title := None, exact_title := ex\<rparr>)
   \<and> gdata_documents_query_set_title q (Own t) ex = Inr (q\<lparr>title := Some t, exact_title := ex\<rparr>)
   \<and> (gdata_documents_query_set_title q p ex = Inr q'
        \<longrightarrow> gdata_documents_query_get_exact_title q' = ex)"
  by (simp add: set_title_result set_property_title set_title_exact
        gdata_documents_query_get_title_def gdata_documents_query_get_exact_title_def)

theorem title_property_forces_exact_witness:
  "\<not> gdata_documents_query_get_exact_title gdata_documents_query_init
   \<and> gdata_documents_query_set_property gdata_documents_query_init PROP_TITLE
        (GString (Some ''draft''))
       = Inr (gdata_documents_query_init\<lparr>title := Some ''draft'', exact_title := True\<rparr>)
   \<and> gdata_documents_query_get_exact_title
        (gdata_documents_query_init\<lparr>title := Some ''draft'', exact_title := True\<rparr>)
   \<and> gdata_documents_query_get_title
        (gdata_documents_query_init\<lparr>title := Some ''draft'', exact_title := True\<rparr>)
       = Some ''draft''
   \<and> gdata_documents_query_set_title gdata_documents_query_init (Own ''draft'') False
       = Inr (gdata_documents_query_init\<lparr>title := Some ''draft'', exact_title := False\<rparr>)
   \<and> \<not> gdata_documents_query_get_exact_title
          (gdata_documents_query_init\<lparr>title := Some ''draft'', exact_title := False\<rparr>)"
proof -
  have i: "\<not> gdata_documents_query_get_exact_title gdata_documents_query_init" by code_simp
  note t = title_property_forces_exact [of gdata_documents_query_init "GString (Some ''draft'')"
             False "''draft''" "Own ''draft''"
             "gdata_documents_query_init\<lparr>title := Some ''draft'', exact_title := False\<rparr>"]
  from t have s: "gdata_documents_query_set_title gdata_documents_query_init (Own ''draft'') False
       = Inr (gdata_documents_query_init\<lparr>title := Some ''draft'', exact_title := False\<rparr>)"
    by blast
  with t have "\<not> gdata_documents_query_get_exact_title
          (gdata_documents_query_init\<lparr>title := Some ''draft'', exact_title := False\<rparr>)"
    by blast
  with i s t show ?thesis by (simp add: g_value_string_def)
qed


end
